theory Spec2Isabelle
  imports Complex_Main
begin

section \<open>Data model of the registry client\<close>

text \<open>
  The development embeds \<^verbatim>\<open>src/registry.ts\<close>, the class \<^verbatim>\<open>RegistryClient\<close>.
  A \<^verbatim>\<open>Buffer\<close> and a response body are byte strings. The libraries the class calls
  (\<^verbatim>\<open>crypto\<close>, \<^verbatim>\<open>JSON\<close>, \<^verbatim>\<open>url\<close>, base64 encoding) are parameters, collected in
  the record \<open>platform\<close>; the HTTP library \<^verbatim>\<open>request\<close> is the parameter \<open>transport\<close>.
\<close>

type_synonym bytes = string

text \<open>
  A value produced by \<^verbatim>\<open>JSON.parse\<close>. An object is an association list whose first
  binding of a key is the property's value. Only whether a number is zero matters below.
\<close>

datatype json =
    JNull
  | JBool bool
  | JNum rat
  | JStr string
  | JArr "json list"
  | JObj "(string \<times> json) list"

record platform =
  sha256_hex :: "bytes \<Rightarrow> string"
    \<comment> \<open>\<^verbatim>\<open>crypto.createHash('sha256').update(b).digest('hex')\<close>\<close>
  base64 :: "bytes \<Rightarrow> string"
    \<comment> \<open>\<^verbatim>\<open>Buffer.from(s).toString('base64')\<close>\<close>
  json_parse :: "string \<Rightarrow> json option"
    \<comment> \<open>\<^verbatim>\<open>JSON.parse\<close>; \<open>None\<close> when it throws its SyntaxError\<close>
  json_stringify :: "json \<Rightarrow> string"
    \<comment> \<open>\<^verbatim>\<open>JSON.stringify\<close>\<close>
  url_resolve :: "string \<Rightarrow> string \<Rightarrow> string"
    \<comment> \<open>\<^verbatim>\<open>urlModule.resolve(from, to)\<close>\<close>

text \<open>
  Every \<^verbatim>\<open>new Error(...)\<close> of the class is a constructor that keeps what the message
  is built from; \<open>TransportError\<close> is the \<^verbatim>\<open>err\<close> the transport hands to a callback.
\<close>

datatype error =
    TransportError string
  | SyntaxError
    \<comment> \<open>thrown by \<^verbatim>\<open>JSON.parse\<close>\<close>
  | TypeError
    \<comment> \<open>thrown by reading a property of \<^verbatim>\<open>null\<close> or \<^verbatim>\<open>undefined\<close>\<close>
  | ManifestStatus nat bytes
    \<comment> \<open>\<^verbatim>\<open>'unexpected status code ' + status + ' from docker registry. response ' + body\<close>\<close>
  | ManifestUploadStatus nat bytes
    \<comment> \<open>\<^verbatim>\<open>'unexpected status code ' + status + ' ' + body\<close>\<close>
  | BlobStreamStatus nat
    \<comment> \<open>\<^verbatim>\<open>'unexpected status code ' + status + ' streaming blob'\<close>\<close>
  | BlobStatus nat bytes
    \<comment> \<open>\<^verbatim>\<open>'unexpected status code ' + status + ' ' + body\<close>\<close>
  | RedirectLooped string
    \<comment> \<open>\<^verbatim>\<open>'redirect looped 5 times ' + url\<close>\<close>
  | MissingUploadUuid
    \<comment> \<open>\<^verbatim>\<open>'request to start upload did not provide uuid in header docker-upload-uuid.'\<close>\<close>
  | UploadStatus nat
    \<comment> \<open>\<^verbatim>\<open>'unexpected status code ' + status + ' for upload.'\<close>\<close>
  | PatchStatus nat
    \<comment> \<open>\<^verbatim>\<open>'unexpected status code ' + status + ' for patch upload'\<close>\<close>
  | FinalizeStatus nat
    \<comment> \<open>\<^verbatim>\<open>'unexpected status code ' + status + ' for upload finalization'\<close>\<close>

datatype http_method = GET | HEAD | POST | PUT | PATCH

datatype header_value = HStr string | HNum nat

record request =
  req_method :: http_method
  url :: string
  req_headers :: "(string \<times> header_value) list"
  followRedirect :: bool
  payload :: bytes

record response =
  statusCode :: nat
  headers :: "string \<rightharpoonup> string"
  body :: bytes

text \<open>
  What the transport does with one request: it calls back with an error and no response
  (\<open>Failed\<close>), or with a response. The answer may depend on the requests issued before.
\<close>

datatype reply = Failed string | Response response

type_synonym transport = "request list \<Rightarrow> request \<Rightarrow> reply"

text \<open>
  A promise settles at most once. A run of a method records the requests it issued, in
  order, the final state of the promise it returned, and the exception, if any, that a
  callback threw past every handler.
\<close>

datatype 'a promise = Pending | Resolved 'a | Rejected error

record 'a run =
  requests :: "request list"
  promise :: "'a promise"
  uncaught :: "error option"

text \<open>
  Modelled from the spec: the type \<^verbatim>\<open>DockerAuthResult\<close> is declared in
  \<^verbatim>\<open>./credentials-helper\<close>, which is not among the sources. The spec's Credential is a
  bearer token or a username and secret; the class reads the properties \<^verbatim>\<open>token\<close>,
  \<^verbatim>\<open>Username\<close> and \<^verbatim>\<open>Secret\<close>, each of which may be absent.
\<close>

record DockerAuthResult =
  token :: "string option"
  Username :: "string option"
  Secret :: "string option"

record RegistryClient =
  auth :: DockerAuthResult
  registry :: string
  repository :: string

section \<open>JavaScript coercions\<close>

text \<open>String concatenation renders an absent value as \<^verbatim>\<open>undefined\<close>.\<close>

definition js_string :: "string option \<Rightarrow> string" where
  "js_string v = (case v of None \<Rightarrow> ''undefined'' | Some s \<Rightarrow> s)"

text \<open>An absent or empty string is falsy.\<close>

definition truthy_string :: "string option \<Rightarrow> bool" where
  "truthy_string v = (case v of None \<Rightarrow> False | Some s \<Rightarrow> s \<noteq> [])"

text \<open>\<^verbatim>\<open>undefined\<close> and \<^verbatim>\<open>0\<close> are falsy numbers.\<close>

definition truthy_number :: "nat option \<Rightarrow> bool" where
  "truthy_number v = (case v of None \<Rightarrow> False | Some n \<Rightarrow> n \<noteq> 0)"

text \<open>Truthiness of a parsed value; \<open>None\<close> is \<^verbatim>\<open>undefined\<close>.\<close>

fun truthy_json :: "json option \<Rightarrow> bool" where
  "truthy_json None = False"
| "truthy_json (Some JNull) = False"
| "truthy_json (Some (JBool b)) = b"
| "truthy_json (Some (JNum n)) = (n \<noteq> 0)"
| "truthy_json (Some (JStr s)) = (s \<noteq> [])"
| "truthy_json (Some (JArr xs)) = True"
| "truthy_json (Some (JObj kvs)) = True"

text \<open>
  Reading the property \<open>k\<close> of a parsed value: \<^verbatim>\<open>null\<close> throws a TypeError, an object
  gives the property or \<^verbatim>\<open>undefined\<close>, every other value gives \<^verbatim>\<open>undefined\<close> for a
  name that no prototype defines.
\<close>

fun get_property :: "json \<Rightarrow> string \<Rightarrow> error + json option" where
  "get_property JNull k = Inl TypeError"
| "get_property (JObj kvs) k = Inr (map_of kvs k)"
| "get_property v k = Inr None"

section \<open>The class\<close>

text \<open>\<^verbatim>\<open>authHeader\<close>: a truthy token gives a bearer header, otherwise basic credentials.\<close>

definition authHeader :: "platform \<Rightarrow> RegistryClient \<Rightarrow> string" where
  "authHeader P c =
     (if truthy_string (token (auth c)) then ''Bearer '' @ js_string (token (auth c))
      else ''Basic '' @
        base64 P (js_string (Username (auth c)) @ '':'' @ js_string (Secret (auth c))))"

definition manifest_media_type :: string where
  "manifest_media_type = ''application/vnd.docker.distribution.manifest.v2+json''"

definition settled :: "request list \<Rightarrow> 'a promise \<Rightarrow> 'a run" where
  "settled rs p = \<lparr>requests = rs, promise = p, uncaught = None\<rparr>"

subsection \<open>\<^verbatim>\<open>tags\<close>\<close>

definition tags_request :: "platform \<Rightarrow> RegistryClient \<Rightarrow> request" where
  "tags_request P c =
     \<lparr>req_method = GET,
      url = ''https://'' @ registry c @ ''/v2/'' @ repository c @ ''/tags/list'',
      req_headers = [(''Authorization'', HStr (authHeader P c)),
                     (''Accept'', HStr manifest_media_type)],
      followRedirect = True,
      payload = []\<rparr>"

definition tags :: "platform \<Rightarrow> RegistryClient \<Rightarrow> transport \<Rightarrow> json run" where
  "tags P c T =
     (let req = tags_request P c in
      case T [] req of
        Failed err \<Rightarrow> settled [req] (Rejected (TransportError err))
      | Response res \<Rightarrow>
          (case json_parse P (body res) of
             None \<Rightarrow> settled [req] (Rejected SyntaxError)
           | Some parsed \<Rightarrow> settled [req] (Resolved parsed)))"

subsection \<open>\<^verbatim>\<open>manifest\<close>\<close>

definition manifest_request :: "platform \<Rightarrow> RegistryClient \<Rightarrow> string \<Rightarrow> request" where
  "manifest_request P c tag =
     \<lparr>req_method = GET,
      url = ''https://'' @ registry c @ ''/v2/'' @ repository c @ ''/manifests/'' @ tag,
      req_headers = [(''Authorization'', HStr (authHeader P c)),
                     (''Accept'', HStr manifest_media_type)],
      followRedirect = True,
      payload = []\<rparr>"

text \<open>
  The callback parses the body first; \<^verbatim>\<open>res.statusCode === 200 && parsed.config\<close> reads
  the property only when the status is 200, and anything thrown inside \<^verbatim>\<open>try\<close> rejects.
\<close>

definition manifest :: "platform \<Rightarrow> RegistryClient \<Rightarrow> transport \<Rightarrow> string \<Rightarrow> json run" where
  "manifest P c T tag =
     (let req = manifest_request P c tag in
      case T [] req of
        Failed err \<Rightarrow> settled [req] (Rejected (TransportError err))
      | Response res \<Rightarrow>
          (case json_parse P (body res) of
             None \<Rightarrow> settled [req] (Rejected SyntaxError)
           | Some parsed \<Rightarrow>
               if statusCode res = 200 then
                 (case get_property parsed ''config'' of
                    Inl e \<Rightarrow> settled [req] (Rejected e)
                  | Inr cfg \<Rightarrow>
                      if truthy_json cfg then settled [req] (Resolved parsed)
                      else settled [req]
                             (Rejected (ManifestStatus (statusCode res) (body res))))
               else settled [req] (Rejected (ManifestStatus (statusCode res) (body res)))))"

subsection \<open>\<^verbatim>\<open>manifestUpload\<close>\<close>

datatype tag_arg = NoTag | Tag string
  \<comment> \<open>\<^verbatim>\<open>string|false\<close>\<close>

datatype manifest_arg = ManifestBuffer bytes | ManifestObject json
  \<comment> \<open>\<^verbatim>\<open>Buffer|{}\<close>\<close>

record manifest_upload_result =
  mu_status :: nat
  mu_digest :: string
  mu_body :: bytes

definition manifestBuf :: "platform \<Rightarrow> manifest_arg \<Rightarrow> bytes" where
  "manifestBuf P m =
     (case m of ManifestBuffer b \<Rightarrow> b | ManifestObject v \<Rightarrow> json_stringify P v)"

definition manifest_digest :: "platform \<Rightarrow> manifest_arg \<Rightarrow> string" where
  "manifest_digest P m = ''sha256:'' @ sha256_hex P (manifestBuf P m)"

text \<open>\<^verbatim>\<open>if (!tag) tag = digest\<close>: \<^verbatim>\<open>false\<close> and the empty string are both falsy.\<close>

definition manifest_reference :: "platform \<Rightarrow> tag_arg \<Rightarrow> manifest_arg \<Rightarrow> string" where
  "manifest_reference P tag m =
     (case tag of
        NoTag \<Rightarrow> manifest_digest P m
      | Tag t \<Rightarrow> if t = [] then manifest_digest P m else t)"

definition manifestUpload_request ::
  "platform \<Rightarrow> RegistryClient \<Rightarrow> tag_arg \<Rightarrow> manifest_arg \<Rightarrow> request" where
  "manifestUpload_request P c tag m =
     \<lparr>req_method = PUT,
      url = ''https://'' @ registry c @ ''/v2/'' @ repository c @ ''/manifests/''
            @ manifest_reference P tag m,
      req_headers = [(''Authorization'', HStr (authHeader P c)),
                     (''content-type'', HStr manifest_media_type)],
      followRedirect = True,
      payload = manifestBuf P m\<rparr>"

definition manifestUpload ::
  "platform \<Rightarrow> RegistryClient \<Rightarrow> transport \<Rightarrow> tag_arg \<Rightarrow> manifest_arg
     \<Rightarrow> manifest_upload_result run" where
  "manifestUpload P c T tag m =
     (let digest = manifest_digest P m;
          req = manifestUpload_request P c tag m in
      case T [] req of
        Failed err \<Rightarrow> settled [req] (Rejected (TransportError err))
      | Response res \<Rightarrow>
          if statusCode res \<noteq> 200 \<and> statusCode res \<noteq> 201 then
            settled [req] (Rejected (ManifestUploadStatus (statusCode res) (body res)))
          else
            settled [req]
              (Resolved \<lparr>mu_status = statusCode res, mu_digest = digest,
                         mu_body = body res\<rparr>))"

subsection \<open>\<^verbatim>\<open>blobExists\<close>\<close>

definition blob_url :: "RegistryClient \<Rightarrow> string \<Rightarrow> string" where
  "blob_url c digest =
     ''https://'' @ registry c @ ''/v2/'' @ repository c @ ''/blobs/'' @ digest"

definition blobExists_request :: "platform \<Rightarrow> RegistryClient \<Rightarrow> string \<Rightarrow> request" where
  "blobExists_request P c digest =
     \<lparr>req_method = HEAD,
      url = blob_url c digest,
      req_headers = [(''Authorization'', HStr (authHeader P c))],
      followRedirect = True,
      payload = []\<rparr>"

text \<open>
  \<^verbatim>\<open>if (err) reject(err); resolve(res.statusCode === 200);\<close> has no \<^verbatim>\<open>return\<close>: after
  rejecting, the callback reads \<^verbatim>\<open>statusCode\<close> of the absent response and throws.
\<close>

definition blobExists :: "platform \<Rightarrow> RegistryClient \<Rightarrow> transport \<Rightarrow> string \<Rightarrow> bool run" where
  "blobExists P c T digest =
     (let req = blobExists_request P c digest in
      case T [] req of
        Failed err \<Rightarrow>
          \<lparr>requests = [req], promise = Rejected (TransportError err),
           uncaught = Some TypeError\<rparr>
      | Response res \<Rightarrow> settled [req] (Resolved (statusCode res = 200)))"

subsection \<open>\<^verbatim>\<open>blob\<close>\<close>

datatype blob_result = Body bytes | PausedStream response
  \<comment> \<open>\<^verbatim>\<open>Buffer|Readable\<close>: the whole body, or the paused response stream\<close>

definition blob_request :: "platform \<Rightarrow> RegistryClient \<Rightarrow> string \<Rightarrow> request" where
  "blob_request P c u =
     \<lparr>req_method = GET,
      url = u,
      req_headers = [(''Authorization'', HStr (authHeader P c))],
      followRedirect = False,
      payload = []\<rparr>"

text \<open>
  The closure \<^verbatim>\<open>fetch\<close>. The counter \<^verbatim>\<open>loop\<close> of the enclosing call and the requests
  issued so far are passed along. \<^verbatim>\<open>loop++ === 5\<close> compares the old value and then
  increments. The test is an equality, so the recursion is not bounded for every value of
  the counter: the result is \<open>None\<close> where the chain of calls never ends.
\<close>

partial_function (option) fetch ::
  "platform \<Rightarrow> RegistryClient \<Rightarrow> transport \<Rightarrow> bool \<Rightarrow> nat \<Rightarrow> request list \<Rightarrow> string
     \<Rightarrow> blob_result run option" where
  "fetch P c T stream loop rs u =
     (if loop = 5 then Some (settled rs (Rejected (RedirectLooped u)))
      else
        let req = blob_request P c u in
        if stream then
          (case T rs req of
             Failed err \<Rightarrow> Some (settled (rs @ [req]) (Rejected (TransportError err)))
           | Response res \<Rightarrow>
               if truthy_string (headers res ''location'') then
                 fetch P c T stream (loop + 1) (rs @ [req])
                   (url_resolve P u (js_string (headers res ''location'')))
               else if statusCode res \<noteq> 200 then
                 Some (settled (rs @ [req]) (Rejected (BlobStreamStatus (statusCode res))))
               else Some (settled (rs @ [req]) (Resolved (PausedStream res))))
        else
          (case T rs req of
             Failed err \<Rightarrow> Some (settled (rs @ [req]) (Rejected (TransportError err)))
           | Response res \<Rightarrow>
               if truthy_string (headers res ''location'') then
                 fetch P c T stream (loop + 1) (rs @ [req])
                   (url_resolve P u (js_string (headers res ''location'')))
               else if statusCode res \<noteq> 200 then
                 Some (settled (rs @ [req])
                         (Rejected (BlobStatus (statusCode res) (body res))))
               else Some (settled (rs @ [req]) (Resolved (Body (body res))))))"

declare fetch.simps [code]

definition blob ::
  "platform \<Rightarrow> RegistryClient \<Rightarrow> transport \<Rightarrow> string \<Rightarrow> bool \<Rightarrow> blob_result run option" where
  "blob P c T digest stream = fetch P c T stream 0 [] (blob_url c digest)"

subsection \<open>\<^verbatim>\<open>upload\<close>\<close>

text \<open>A \<^verbatim>\<open>Readable\<close> is the list of chunks its \<^verbatim>\<open>data\<close> events deliver, in order.\<close>

datatype blob_source = Buffer bytes | Stream "bytes list"

record upload_result =
  contentLength :: nat
  digest :: string

definition blob_bytes :: "blob_source \<Rightarrow> bytes" where
  "blob_bytes src = (case src of Buffer b \<Rightarrow> b | Stream chunks \<Rightarrow> concat chunks)"

definition uploads_url :: "RegistryClient \<Rightarrow> string" where
  "uploads_url c = ''https://'' @ registry c @ ''/v2/'' @ repository c @ ''/blobs/uploads/''"

definition initiate_request :: "platform \<Rightarrow> RegistryClient \<Rightarrow> request" where
  "initiate_request P c =
     \<lparr>req_method = POST,
      url = uploads_url c,
      req_headers = [(''Authorization'', HStr (authHeader P c)),
                     (''Content-Length'', HNum 0)],
      followRedirect = True,
      payload = []\<rparr>"

text \<open>The monolithic \<^verbatim>\<open>PUT\<close>: the blob is piped or written into the request.\<close>

definition put_request ::
  "platform \<Rightarrow> RegistryClient \<Rightarrow> string \<Rightarrow> nat \<Rightarrow> string \<Rightarrow> blob_source \<Rightarrow> request" where
  "put_request P c uuid len dig src =
     \<lparr>req_method = PUT,
      url = uploads_url c @ uuid @ ''?digest='' @ dig,
      req_headers = [(''Authorization'', HStr (authHeader P c)),
                     (''Content-Length'', HNum len),
                     (''Content-Type'', HStr ''application/octet-stream'')],
      followRedirect = True,
      payload = blob_bytes src\<rparr>"

definition patch_request ::
  "platform \<Rightarrow> RegistryClient \<Rightarrow> string \<Rightarrow> blob_source \<Rightarrow> request" where
  "patch_request P c uuid src =
     \<lparr>req_method = PATCH,
      url = uploads_url c @ uuid,
      req_headers = [(''Authorization'', HStr (authHeader P c)),
                     (''Content-Type'', HStr ''application/octet-stream'')],
      followRedirect = True,
      payload = blob_bytes src\<rparr>"

definition finalize_request ::
  "platform \<Rightarrow> RegistryClient \<Rightarrow> string \<Rightarrow> string \<Rightarrow> request" where
  "finalize_request P c uuid dig =
     \<lparr>req_method = PUT,
      url = uploads_url c @ uuid @ ''?digest='' @ dig,
      req_headers = [(''Authorization'', HStr (authHeader P c)),
                     (''Content-Length'', HNum 0),
                     (''Content-Type'', HStr ''application/octet-stream'')],
      followRedirect = True,
      payload = []\<rparr>"

text \<open>
  The branch \<^verbatim>\<open>if (contentLength && digest)\<close>. The result carries the length the
  branch was entered with and the response header \<^verbatim>\<open>docker-content-digest\<close>, coerced
  to a string.
\<close>

definition upload_monolithic ::
  "platform \<Rightarrow> RegistryClient \<Rightarrow> transport \<Rightarrow> request \<Rightarrow> string \<Rightarrow> nat \<Rightarrow> string
     \<Rightarrow> blob_source \<Rightarrow> upload_result run" where
  "upload_monolithic P c T post uuid len dig src =
     (let putReq = put_request P c uuid len dig src in
      case T [post] putReq of
        Failed err \<Rightarrow> settled [post, putReq] (Rejected (TransportError err))
      | Response res \<Rightarrow>
          if statusCode res \<noteq> 201 then
            settled [post, putReq] (Rejected (UploadStatus (statusCode res)))
          else
            settled [post, putReq]
              (Resolved \<lparr>contentLength = len + 0,
                         digest = js_string (headers res ''docker-content-digest'')\<rparr>))"

text \<open>
  The state of \<^verbatim>\<open>crypto.createHash('sha256')\<close> is the bytes it was fed;
  \<^verbatim>\<open>hash.update(b)\<close> appends and \<^verbatim>\<open>hash.digest('hex')\<close> hashes them all. One
  \<^verbatim>\<open>data\<close> event updates the hash and the counter.
\<close>

definition on_data :: "bytes \<times> nat \<Rightarrow> bytes \<Rightarrow> bytes \<times> nat" where
  "on_data st b = (fst st @ b, snd st + length b)"

text \<open>
  The rest of the callback of the initiating \<^verbatim>\<open>POST\<close>. The callback of the
  \<^verbatim>\<open>PATCH\<close> runs once the request has completed, after every chunk was written and
  seen by the \<^verbatim>\<open>data\<close> handler. Its first statement reads \<^verbatim>\<open>res.headers\<close>, before
  \<^verbatim>\<open>err\<close> is looked at: with no response this throws and the promise stays pending.
\<close>

definition upload_chunked ::
  "platform \<Rightarrow> RegistryClient \<Rightarrow> transport \<Rightarrow> request \<Rightarrow> string \<Rightarrow> blob_source
     \<Rightarrow> upload_result run" where
  "upload_chunked P c T post uuid src =
     (let patchReq = patch_request P c uuid src;
          st = (case src of
                  Buffer b \<Rightarrow> on_data ([], 0) b
                | Stream chunks \<Rightarrow> foldl on_data ([], 0) chunks) in
      case T [post] patchReq of
        Failed err \<Rightarrow>
          \<lparr>requests = [post, patchReq], promise = Pending, uncaught = Some TypeError\<rparr>
      | Response res \<Rightarrow>
          let uuid2 = (if truthy_string (headers res ''docker-upload-uuid'')
                       then js_string (headers res ''docker-upload-uuid'') else uuid) in
          if statusCode res \<noteq> 204 then
            settled [post, patchReq] (Rejected (PatchStatus (statusCode res)))
          else
            let dig = ''sha256:'' @ sha256_hex P (fst st);
                resp = finalize_request P c uuid2 dig in
            (case T [post, patchReq] resp of
               Failed err \<Rightarrow>
                 settled [post, patchReq, resp] (Rejected (TransportError err))
             | Response res2 \<Rightarrow>
                 if statusCode res2 \<noteq> 201 then
                   settled [post, patchReq, resp]
                     (Rejected (FinalizeStatus (statusCode res2)))
                 else
                   settled [post, patchReq, resp]
                     (Resolved \<lparr>contentLength = snd st, digest = dig\<rparr>)))"

text \<open>
  \<^verbatim>\<open>upload(blob, contentLength?, digest?)\<close>. For a buffer a falsy length becomes the
  buffer's length and a falsy digest its hash; a stream keeps what the caller gave.
\<close>

definition upload ::
  "platform \<Rightarrow> RegistryClient \<Rightarrow> transport \<Rightarrow> blob_source \<Rightarrow> nat option \<Rightarrow> string option
     \<Rightarrow> upload_result run" where
  "upload P c T src contentLength0 digest0 =
     (let len = (case src of
                   Stream chunks \<Rightarrow> contentLength0
                 | Buffer b \<Rightarrow>
                     if \<not> truthy_number contentLength0 then Some (length b)
                     else contentLength0);
          dig = (case src of
                   Stream chunks \<Rightarrow> digest0
                 | Buffer b \<Rightarrow>
                     if \<not> truthy_string digest0 then Some (''sha256:'' @ sha256_hex P b)
                     else digest0);
          post = initiate_request P c in
      case T [] post of
        Failed err \<Rightarrow> settled [post] (Rejected (TransportError err))
      | Response res \<Rightarrow>
          if \<not> truthy_string (headers res ''docker-upload-uuid'') then
            settled [post] (Rejected MissingUploadUuid)
          else
            let uuid = js_string (headers res ''docker-upload-uuid'') in
            if truthy_number len \<and> truthy_string dig then
              upload_monolithic P c T post uuid (case len of Some n \<Rightarrow> n | None \<Rightarrow> 0)
                (js_string dig) src
            else upload_chunked P c T post uuid src)"

section \<open>Concrete collaborators\<close>

text \<open>A transport that answers the \<open>n\<close>-th request with the \<open>n\<close>-th reply of a list.\<close>

definition scripted :: "reply list \<Rightarrow> transport" where
  "scripted replies rs req =
     (if length rs < length replies then replies ! length rs else Failed ''ECONNRESET'')"

text \<open>
  Stand-ins for the libraries, for running the class on concrete inputs: a digest function
  that is right on the empty input and otherwise tags its input, a parser that knows a few
  documents, and a resolver that takes the location as it is (an absolute location).
\<close>

definition example_platform :: platform where
  \<open>example_platform =
     \<lparr>sha256_hex = (\<lambda>b. if b = []
        then ''e3b0c44298fc1c149afbf4c8996fb92427ae41e4649b934ca495991b7852b855''
        else ''0000'' @ b),
      base64 = (\<lambda>b. b),
      json_parse = (\<lambda>s.
        if s = ''{"config":null}'' then Some (JObj [(''config'', JNull)])
        else if s = ''{"config":{}}'' then Some (JObj [(''config'', JObj [])])
        else if s = ''{"errors":[]}'' then Some (JObj [(''errors'', JArr [])])
        else if s = ''null'' then Some JNull
        else None),
      json_stringify = (\<lambda>v. ''{}''),
      url_resolve = (\<lambda>u l. l)\<rparr>\<close>

definition example_client :: RegistryClient where
  "example_client =
     \<lparr>auth = \<lparr>token = Some ''t0'', Username = None, Secret = None\<rparr>,
      registry = ''gcr.io'',
      repository = ''proj/img''\<rparr>"

section \<open>Single-request operations\<close>

text \<open>
  Claim C10. \<^verbatim>\<open>tags()\<close> performs no status check: whenever a response arrives and its
  body parses, the promise resolves with the parsed body, and a response with any other
  status code \<open>s\<close> gives the same outcome. The promise rejects exactly when the transport
  reports an error (with that error) or the body does not parse (with the parser's error).
\<close>

theorem tags_resolves_any_status:
  "(T [] (tags_request P c) = Response res \<and> json_parse P (body res) = Some v
      \<longrightarrow> promise (tags P c T) = Resolved v)
   \<and> (T [] (tags_request P c) = Response res
      \<longrightarrow> promise (tags P c (\<lambda>rs req. Response (res\<lparr>statusCode := s\<rparr>)))
          = promise (tags P c T))
   \<and> (promise (tags P c T) = Rejected e \<longleftrightarrow>
        (\<exists>m. T [] (tags_request P c) = Failed m \<and> e = TransportError m)
        \<or> (\<exists>res'. T [] (tags_request P c) = Response res' \<and> json_parse P (body res') = None
              \<and> e = SyntaxError))"
  by (auto simp: tags_def settled_def Let_def split: reply.splits option.splits)

text \<open>A 401 response with a JSON error body resolves like a tag list.\<close>

theorem tags_resolves_any_status_witness:
  \<open>scripted [Response \<lparr>statusCode = 401, headers = Map.empty, body = ''{"errors":[]}''\<rparr>] []
       (tags_request example_platform example_client)
     = Response \<lparr>statusCode = 401, headers = Map.empty, body = ''{"errors":[]}''\<rparr>
   \<and> json_parse example_platform ''{"errors":[]}'' = Some (JObj [(''errors'', JArr [])])
   \<and> promise (tags example_platform example_client
         (scripted [Response \<lparr>statusCode = 401, headers = Map.empty, body = ''{"errors":[]}''\<rparr>]))
       = Resolved (JObj [(''errors'', JArr [])])\<close>
  using tags_resolves_any_status
    [of "scripted [Response \<lparr>statusCode = 401, headers = Map.empty, body = ''{\"errors\":[]}''\<rparr>]"
        example_platform example_client
        "\<lparr>statusCode = 401, headers = Map.empty, body = ''{\"errors\":[]}''\<rparr>"
        "JObj [(''errors'', JArr [])]"]
  by (simp add: scripted_def example_platform_def)

text \<open>
  Claim C7. When \<^verbatim>\<open>blobExists(digest)\<close> receives a response, the promise resolves to
  the truth value of "the status is exactly 200"; a 404 resolves to false, nothing is
  rejected and nothing is thrown.
\<close>

theorem blobExists_true_iff_200:
  "T [] (blobExists_request P c d) = Response res \<Longrightarrow>
     promise (blobExists P c T d) = Resolved (statusCode res = 200)
     \<and> (statusCode res = 404 \<longrightarrow> promise (blobExists P c T d) = Resolved False)
     \<and> uncaught (blobExists P c T d) = None"
  by (simp add: blobExists_def settled_def Let_def)

theorem blobExists_true_iff_200_witness:
  "scripted [Response \<lparr>statusCode = 404, headers = Map.empty, body = []\<rparr>] []
       (blobExists_request example_platform example_client ''sha256:ab'')
     = Response \<lparr>statusCode = 404, headers = Map.empty, body = []\<rparr>
   \<and> promise (blobExists example_platform example_client
         (scripted [Response \<lparr>statusCode = 404, headers = Map.empty, body = []\<rparr>]) ''sha256:ab'')
       = Resolved False"
  using blobExists_true_iff_200
    [of "scripted [Response \<lparr>statusCode = 404, headers = Map.empty, body = []\<rparr>]"
        example_platform example_client "''sha256:ab''"
        "\<lparr>statusCode = 404, headers = Map.empty, body = []\<rparr>"]
  by (simp add: scripted_def)

text \<open>
  Claim C8. The bytes \<^verbatim>\<open>manifestUpload\<close> serializes are the caller's buffer, or
  \<^verbatim>\<open>JSON.stringify\<close> of the caller's object, and they are the payload of the one
  request it issues. With \<^verbatim>\<open>false\<close> (or the empty string) for the tag, the reference
  in the request path is the digest computed locally from those bytes; with a tag (a
  non-empty string) the reference is that tag. The digest of the resolved result is that
  local digest of the bytes sent, and it is a function of the bytes alone: two calls over
  identical bytes resolve with identical digests, whatever the tag, the client and the
  registry's answers are.
\<close>

theorem manifestUpload_reference_and_digest:
  "manifestBuf P (ManifestBuffer b) = b
   \<and> manifestBuf P (ManifestObject v) = json_stringify P v
   \<and> payload (manifestUpload_request P c tag m) = manifestBuf P m
   \<and> url (manifestUpload_request P c NoTag (ManifestBuffer b))
       = ''https://'' @ registry c @ ''/v2/'' @ repository c @ ''/manifests/''
         @ ''sha256:'' @ sha256_hex P b
   \<and> url (manifestUpload_request P c NoTag (ManifestObject v))
       = ''https://'' @ registry c @ ''/v2/'' @ repository c @ ''/manifests/''
         @ ''sha256:'' @ sha256_hex P (json_stringify P v)
   \<and> url (manifestUpload_request P c NoTag m)
       = ''https://'' @ registry c @ ''/v2/'' @ repository c @ ''/manifests/''
         @ ''sha256:'' @ sha256_hex P (payload (manifestUpload_request P c NoTag m))
   \<and> url (manifestUpload_request P c (Tag []) m) = url (manifestUpload_request P c NoTag m)
   \<and> (t \<noteq> [] \<longrightarrow>
        url (manifestUpload_request P c (Tag t) m)
          = ''https://'' @ registry c @ ''/v2/'' @ repository c @ ''/manifests/'' @ t)
   \<and> requests (manifestUpload P c T tag m) = [manifestUpload_request P c tag m]
   \<and> (promise (manifestUpload P c T tag m) = Resolved r \<longrightarrow>
        mu_digest r
          = ''sha256:'' @ sha256_hex P (payload (manifestUpload_request P c tag m)))
   \<and> (promise (manifestUpload P c T tag (ManifestBuffer b)) = Resolved r \<longrightarrow>
        mu_digest r = ''sha256:'' @ sha256_hex P b)
   \<and> (promise (manifestUpload P c T tag (ManifestObject v)) = Resolved r \<longrightarrow>
        mu_digest r = ''sha256:'' @ sha256_hex P (json_stringify P v))
   \<and> (manifestBuf P m = manifestBuf P m' \<and>
      promise (manifestUpload P c T tag m) = Resolved r \<and>
      promise (manifestUpload P c' T' tag' m') = Resolved r' \<longrightarrow>
        mu_digest r = mu_digest r')"
proof -
  have bytes: "manifestBuf P (ManifestBuffer b) = b"
    "manifestBuf P (ManifestObject v) = json_stringify P v"
    by (simp_all add: manifestBuf_def)
  have sent: "payload (manifestUpload_request P c tg mm) = manifestBuf P mm" for tg mm
    by (simp add: manifestUpload_request_def)
  have ref: "url (manifestUpload_request P c tg mm)
      = ''https://'' @ registry c @ ''/v2/'' @ repository c @ ''/manifests/''
        @ (case tg of NoTag \<Rightarrow> ''sha256:'' @ sha256_hex P (manifestBuf P mm)
           | Tag t \<Rightarrow> if t = [] then ''sha256:'' @ sha256_hex P (manifestBuf P mm) else t)"
    for tg mm
    by (simp add: manifestUpload_request_def manifest_reference_def manifest_digest_def
        split: tag_arg.splits)
  have one: "requests (manifestUpload P c T tag m) = [manifestUpload_request P c tag m]"
    by (simp add: manifestUpload_def settled_def Let_def split: reply.splits)
  have dig: "mu_digest rr = ''sha256:'' @ sha256_hex P (manifestBuf P mm)"
    if "promise (manifestUpload P cc TT tg mm) = Resolved rr" for cc TT tg mm rr
    using that
    by (auto simp: manifestUpload_def manifest_digest_def settled_def Let_def
        split: reply.splits if_splits)
  show ?thesis
    using dig [of c T tag m r] dig [of c T tag "ManifestBuffer b" r]
      dig [of c T tag "ManifestObject v" r] dig [of c' T' tag' m' r']
    by (simp add: bytes sent ref one)
qed

theorem manifestUpload_reference_and_digest_witness:
  "''v1'' \<noteq> []
   \<and> payload (manifestUpload_request example_platform example_client (Tag ''v1'')
           (ManifestBuffer ''{}'')) = ''{}''
   \<and> url (manifestUpload_request example_platform example_client (Tag ''v1'')
           (ManifestBuffer ''{}''))
       = ''https://gcr.io/v2/proj/img/manifests/v1''
   \<and> url (manifestUpload_request example_platform example_client NoTag
           (ManifestBuffer ''{}''))
       = ''https://gcr.io/v2/proj/img/manifests/sha256:0000{}''
   \<and> manifestBuf example_platform (ManifestBuffer ''{}'')
       = manifestBuf example_platform (ManifestObject (JObj []))
   \<and> promise (manifestUpload example_platform example_client
         (scripted [Response \<lparr>statusCode = 201, headers = Map.empty, body = []\<rparr>])
         (Tag ''v1'') (ManifestBuffer ''{}''))
       = Resolved \<lparr>mu_status = 201, mu_digest = ''sha256:0000{}'', mu_body = []\<rparr>
   \<and> promise (manifestUpload example_platform example_client
         (scripted [Response \<lparr>statusCode = 200, headers = Map.empty, body = ''ok''\<rparr>])
         NoTag (ManifestObject (JObj [])))
       = Resolved \<lparr>mu_status = 200, mu_digest = ''sha256:0000{}'', mu_body = ''ok''\<rparr>"
  using manifestUpload_reference_and_digest
    [where P = example_platform and c = example_client and m = "ManifestBuffer ''{}''"
       and b = "''{}''" and v = "JObj []" and t = "''v1''"
       and T = "scripted [Response \<lparr>statusCode = 201, headers = Map.empty, body = []\<rparr>]"
       and tag = "Tag ''v1''"
       and r = "\<lparr>mu_status = 201, mu_digest = ''sha256:0000{}'', mu_body = []\<rparr>"
       and m' = "ManifestObject (JObj [])" and c' = example_client
       and T' = "scripted [Response \<lparr>statusCode = 200, headers = Map.empty, body = ''ok''\<rparr>]"
       and tag' = NoTag
       and r' = "\<lparr>mu_status = 200, mu_digest = ''sha256:0000{}'', mu_body = ''ok''\<rparr>"]
  by (simp add: manifestUpload_def manifestUpload_request_def manifest_reference_def
      manifest_digest_def manifestBuf_def settled_def scripted_def example_platform_def
      example_client_def)

text \<open>
  Claim C6, as stated, fails: a 200 response whose parsed body contains a \<^verbatim>\<open>config\<close>
  field with the value \<^verbatim>\<open>null\<close> is rejected with the unexpected-status error, since
  the callback tests the truthiness of \<^verbatim>\<open>parsed.config\<close>.
\<close>

theorem manifest_config_null_rejected:
  \<open>statusCode \<lparr>statusCode = 200, headers = Map.empty, body = ''{"config":null}''\<rparr> = 200
   \<and> json_parse example_platform
         (body \<lparr>statusCode = 200, headers = Map.empty, body = ''{"config":null}''\<rparr>)
       = Some (JObj [(''config'', JNull)])
   \<and> ''config'' \<in> fst ` set [(''config'', JNull)]
   \<and> promise (manifest example_platform example_client
         (scripted [Response \<lparr>statusCode = 200, headers = Map.empty,
                               body = ''{"config":null}''\<rparr>]) ''latest'')
       = Rejected (ManifestStatus 200 ''{"config":null}'')\<close>
  by (simp add: manifest_def settled_def scripted_def example_platform_def)

text \<open>
  Claim C6, amended. When \<^verbatim>\<open>manifest(tag)\<close> receives a response, the promise resolves
  (with the parsed body) if and only if the status is 200 and the \<^verbatim>\<open>config\<close> property
  of the parsed body is truthy. It rejects with the parser's error when the body does not
  parse, with the unexpected-status error for any other status and for a 200 body whose
  \<^verbatim>\<open>config\<close> is absent or falsy, and with the TypeError of the property read when the
  status is 200 and the body parses to \<^verbatim>\<open>null\<close>.
\<close>

theorem manifest_resolves_iff_truthy_config:
  "T [] (manifest_request P c tag) = Response res \<Longrightarrow>
   (promise (manifest P c T tag) = Resolved v \<longleftrightarrow>
      statusCode res = 200 \<and> json_parse P (body res) = Some v
      \<and> (\<exists>cfg. get_property v ''config'' = Inr cfg \<and> truthy_json cfg))
   \<and> (json_parse P (body res) = None \<longrightarrow>
        promise (manifest P c T tag) = Rejected SyntaxError)
   \<and> (json_parse P (body res) = Some v \<and> statusCode res \<noteq> 200 \<longrightarrow>
        promise (manifest P c T tag) = Rejected (ManifestStatus (statusCode res) (body res)))
   \<and> (json_parse P (body res) = Some v \<and> statusCode res = 200
        \<and> get_property v ''config'' = Inr cfg \<and> \<not> truthy_json cfg \<longrightarrow>
        promise (manifest P c T tag) = Rejected (ManifestStatus (statusCode res) (body res)))
   \<and> (json_parse P (body res) = Some JNull \<and> statusCode res = 200 \<longrightarrow>
        promise (manifest P c T tag) = Rejected TypeError)"
  by (auto simp: manifest_def settled_def Let_def split: option.splits sum.splits)

theorem manifest_resolves_iff_truthy_config_witness:
  \<open>scripted [Response \<lparr>statusCode = 200, headers = Map.empty, body = ''{"config":{}}''\<rparr>] []
       (manifest_request example_platform example_client ''latest'')
     = Response \<lparr>statusCode = 200, headers = Map.empty, body = ''{"config":{}}''\<rparr>
   \<and> promise (manifest example_platform example_client
         (scripted [Response \<lparr>statusCode = 200, headers = Map.empty,
                               body = ''{"config":{}}''\<rparr>]) ''latest'')
       = Resolved (JObj [(''config'', JObj [])])\<close>
  using manifest_resolves_iff_truthy_config
    [of "scripted [Response \<lparr>statusCode = 200, headers = Map.empty,
                               body = ''{\"config\":{}}''\<rparr>]"
        example_platform example_client "''latest''"
        "\<lparr>statusCode = 200, headers = Map.empty, body = ''{\"config\":{}}''\<rparr>"
        "JObj [(''config'', JObj [])]"]
  by (simp add: scripted_def example_platform_def)

section \<open>Downloading a blob\<close>

text \<open>The scripted transport answers the request after \<open>length pre\<close> others.\<close>

lemma scripted_at:
  "length rs = length pre \<Longrightarrow> scripted (pre @ x # rest) rs req = x"
  by (simp add: scripted_def)

text \<open>
  As long as the counter stays within 5, a run of responses that each carry a location is
  followed one request per response, each URL resolved against the one before.
\<close>

lemma fetch_follows_redirects:
  assumes "list_all (\<lambda>r. truthy_string (headers r ''location'')) reds"
    and "loop + length reds \<le> 5"
    and "length rs = length pre"
  shows "\<exists>rs'. length rs' = length reds \<and>
     fetch P c (scripted (pre @ map Response reds @ rest)) stream loop rs u
       = fetch P c (scripted (pre @ map Response reds @ rest)) stream (loop + length reds)
           (rs @ rs')
           (foldl (\<lambda>u r. url_resolve P u (js_string (headers r ''location''))) u reds)"
  using assms
proof (induction reds arbitrary: loop rs u pre)
  case Nil
  then show ?case by simp
next
  case (Cons r reds)
  let ?T = "scripted (pre @ map Response (r # reds) @ rest)"
  let ?req = "blob_request P c u"
  let ?u' = "url_resolve P u (js_string (headers r ''location''))"
  from Cons.prems have loc: "truthy_string (headers r ''location'')"
    and rest_ok: "list_all (\<lambda>r. truthy_string (headers r ''location'')) reds"
    and bound: "Suc loop + length reds \<le> 5" and ne: "loop \<noteq> 5"
    by auto
  have reply: "?T rs ?req = Response r"
    using Cons.prems(3) by (simp add: scripted_at)
  have step: "fetch P c ?T stream loop rs u = fetch P c ?T stream (Suc loop) (rs @ [?req]) ?u'"
    using ne loc reply by (subst fetch.simps) (simp add: Let_def)
  have len: "length (rs @ [?req]) = length (pre @ [Response r])"
    using Cons.prems(3) by simp
  from Cons.IH [OF rest_ok bound len, of ?u']
  obtain rs' where rs': "length rs' = length reds"
    and eq: "fetch P c ?T stream (Suc loop) (rs @ [?req]) ?u'
       = fetch P c ?T stream (Suc loop + length reds) ((rs @ [?req]) @ rs')
           (foldl (\<lambda>u r. url_resolve P u (js_string (headers r ''location''))) ?u' reds)"
    by auto
  show ?case
    using step eq rs' by (intro exI [of _ "?req # rs'"]) simp
qed

text \<open>
  Claim C4. Let a registry answer \<^verbatim>\<open>blob(digest)\<close> with a chain of redirect responses
  (responses that carry a location). If the chain has at most 4 redirects and ends in a
  200 response without a location, the call returns and the promise resolves with that
  response's body or, when streaming, with the paused response, after one request per
  response. If the chain has 5 redirects, the call returns and the promise rejects with
  the redirect-loop error naming the URL resolved from the fifth redirect, the one a sixth
  request would have fetched; exactly 5 requests were issued, whatever the registry would
  have answered next.
\<close>

theorem blob_redirect_limit:
  assumes "list_all (\<lambda>r. truthy_string (headers r ''location'')) reds"
  shows "(length reds \<le> 4 \<and> \<not> truthy_string (headers res ''location'') \<and> statusCode res = 200
      \<longrightarrow> (\<exists>run. blob P c (scripted (map Response reds @ Response res # rest)) d stream
                   = Some run
             \<and> promise run = Resolved (if stream then PausedStream res else Body (body res))
             \<and> length (requests run) = length reds + 1))
   \<and> (length reds = 5
      \<longrightarrow> (\<exists>run. blob P c (scripted (map Response reds @ rest)) d stream = Some run
             \<and> promise run = Rejected (RedirectLooped
                  (foldl (\<lambda>u r. url_resolve P u (js_string (headers r ''location'')))
                     (blob_url c d) reds))
             \<and> length (requests run) = 5))"
proof (intro conjI impI)
  assume a: "length reds \<le> 4 \<and> \<not> truthy_string (headers res ''location'') \<and> statusCode res = 200"
  let ?T = "scripted (map Response reds @ Response res # rest)"
  let ?u = "foldl (\<lambda>u r. url_resolve P u (js_string (headers r ''location''))) (blob_url c d) reds"
  from a have "0 + length reds \<le> 5" by simp
  from fetch_follows_redirects [OF assms this, of "[]" "[]" P c "Response res # rest" stream "blob_url c d"]
  obtain rs' where rs': "length rs' = length reds"
    and eq: "fetch P c ?T stream 0 [] (blob_url c d) = fetch P c ?T stream (length reds) rs' ?u"
    by auto
  have reply: "?T rs' (blob_request P c ?u) = Response res"
    using rs' scripted_at [of rs' "map Response reds" "Response res" rest] by simp
  have "fetch P c ?T stream (length reds) rs' ?u
      = Some (settled (rs' @ [blob_request P c ?u])
               (Resolved (if stream then PausedStream res else Body (body res))))"
    using a reply by (subst fetch.simps) (simp add: Let_def)
  with eq rs' show "\<exists>run. blob P c ?T d stream = Some run
       \<and> promise run = Resolved (if stream then PausedStream res else Body (body res))
       \<and> length (requests run) = length reds + 1"
    by (simp add: blob_def settled_def)
next
  assume a: "length reds = 5"
  let ?T = "scripted (map Response reds @ rest)"
  let ?u = "foldl (\<lambda>u r. url_resolve P u (js_string (headers r ''location''))) (blob_url c d) reds"
  from a have "0 + length reds \<le> 5" by simp
  from fetch_follows_redirects [OF assms this, of "[]" "[]" P c rest stream "blob_url c d"]
  obtain rs' where rs': "length rs' = length reds"
    and eq: "fetch P c ?T stream 0 [] (blob_url c d) = fetch P c ?T stream (length reds) rs' ?u"
    by auto
  have "fetch P c ?T stream 5 rs' ?u = Some (settled rs' (Rejected (RedirectLooped ?u)))"
    by (subst fetch.simps) simp
  with eq rs' a show "\<exists>run. blob P c ?T d stream = Some run
       \<and> promise run = Rejected (RedirectLooped ?u) \<and> length (requests run) = 5"
    by (simp add: blob_def settled_def)
qed


text \<open>
  Two redirects and a 200 with body \<^verbatim>\<open>OK\<close> resolve to \<^verbatim>\<open>OK\<close>; five redirects reject,
  although a 200 would have followed.
\<close>

theorem blob_redirect_limit_witness:
  "list_all (\<lambda>r. truthy_string (headers r ''location''))
     [\<lparr>statusCode = 302, headers = [''location'' \<mapsto> ''https://a/1''], body = ''moved''\<rparr>,
      \<lparr>statusCode = 307, headers = [''location'' \<mapsto> ''https://a/2''], body = []\<rparr>]
   \<and> map_option promise
        (blob example_platform example_client
           (scripted
              [Response \<lparr>statusCode = 302, headers = [''location'' \<mapsto> ''https://a/1''],
                         body = ''moved''\<rparr>,
               Response \<lparr>statusCode = 307, headers = [''location'' \<mapsto> ''https://a/2''],
                         body = []\<rparr>,
               Response \<lparr>statusCode = 200, headers = Map.empty, body = ''OK''\<rparr>])
           ''sha256:ab'' False)
       = Some (Resolved (Body ''OK''))
   \<and> list_all (\<lambda>r. truthy_string (headers r ''location''))
       (replicate 5 \<lparr>statusCode = 302, headers = [''location'' \<mapsto> ''https://a/1''],
                      body = []\<rparr>)
   \<and> map_option promise
        (blob example_platform example_client
           (scripted
              (map Response
                 (replicate 5 \<lparr>statusCode = 302, headers = [''location'' \<mapsto> ''https://a/1''],
                                body = []\<rparr>)
               @ [Response \<lparr>statusCode = 200, headers = Map.empty, body = ''OK''\<rparr>]))
           ''sha256:ab'' True)
       = Some (Rejected (RedirectLooped ''https://a/1''))
   \<and> map_option (map url \<circ> requests)
        (blob example_platform example_client
           (scripted
              (map Response
                 (replicate 5 \<lparr>statusCode = 302, headers = [''location'' \<mapsto> ''https://a/1''],
                                body = []\<rparr>)
               @ [Response \<lparr>statusCode = 200, headers = Map.empty, body = ''OK''\<rparr>]))
           ''sha256:ab'' True)
       = Some [''https://gcr.io/v2/proj/img/blobs/sha256:ab'', ''https://a/1'',
               ''https://a/1'', ''https://a/1'', ''https://a/1'']"
  using blob_redirect_limit
    [of "[\<lparr>statusCode = 302, headers = [''location'' \<mapsto> ''https://a/1''], body = ''moved''\<rparr>,
          \<lparr>statusCode = 307, headers = [''location'' \<mapsto> ''https://a/2''], body = []\<rparr>]"
        "\<lparr>statusCode = 200, headers = Map.empty, body = ''OK''\<rparr>"
        example_platform example_client "[]" "''sha256:ab''" False]
    blob_redirect_limit
    [of "replicate 5 \<lparr>statusCode = 302, headers = [''location'' \<mapsto> ''https://a/1''],
                       body = []\<rparr>"
        "\<lparr>statusCode = 200, headers = Map.empty, body = ''OK''\<rparr>"
        example_platform example_client
        "[Response \<lparr>statusCode = 200, headers = Map.empty, body = ''OK''\<rparr>]"
        "''sha256:ab''" True]
  by (simp add: blob_def fetch.simps blob_request_def blob_url_def scripted_def settled_def
      truthy_string_def js_string_def example_platform_def example_client_def
      numeral_eq_Suc)

section \<open>Uploading a blob\<close>

text \<open>The \<^verbatim>\<open>data\<close> handler accumulates the concatenation of the chunks and its length.\<close>

lemma foldl_on_data:
  "foldl on_data st chunks = (fst st @ concat chunks, snd st + length (concat chunks))"
  by (induction chunks arbitrary: st) (simp_all add: on_data_def)

lemma data_handler_state:
  "(case src of Buffer b \<Rightarrow> on_data ([], 0) b
    | Stream chunks \<Rightarrow> foldl on_data ([], 0) chunks)
   = (blob_bytes src, length (blob_bytes src))"
  by (cases src) (simp_all add: foldl_on_data blob_bytes_def on_data_def)

text \<open>
  Which uploads take the chunked path: a stream for which the caller did not give both a
  non-zero length and a non-empty digest, and an empty buffer given no non-zero length
  (its own length \<open>0\<close> is falsy in \<^verbatim>\<open>contentLength && digest\<close>).
\<close>

lemma upload_takes_chunked_path:
  assumes "case src of Stream chunks \<Rightarrow> \<not> (truthy_number len \<and> truthy_string dig)
           | Buffer b \<Rightarrow> b = [] \<and> \<not> truthy_number len"
    and "T [] (initiate_request P c) = Response ires"
    and "truthy_string (headers ires ''docker-upload-uuid'')"
  shows "upload P c T src len dig
     = upload_chunked P c T (initiate_request P c)
         (js_string (headers ires ''docker-upload-uuid'')) src"
  using assms
  by (cases src) (auto simp: upload_def Let_def truthy_number_def)

lemma upload_resolved_initiated:
  assumes "promise (upload P c T src len dig) = Resolved r"
  shows "\<exists>ires. T [] (initiate_request P c) = Response ires
     \<and> truthy_string (headers ires ''docker-upload-uuid'')"
  using assms
  by (cases "T [] (initiate_request P c)")
     (auto simp: upload_def Let_def settled_def split: if_splits)

lemma upload_chunked_resolved:
  assumes "promise (upload_chunked P c T post uuid src) = Resolved r"
  shows "\<exists>sid. requests (upload_chunked P c T post uuid src)
       = [post, patch_request P c uuid src,
          finalize_request P c sid (''sha256:'' @ sha256_hex P (blob_bytes src))]
     \<and> r = \<lparr>contentLength = length (blob_bytes src),
            digest = ''sha256:'' @ sha256_hex P (blob_bytes src)\<rparr>"
proof -
  note st = data_handler_state [of src]
  show ?thesis
    using assms unfolding upload_chunked_def st Let_def
    by (auto simp: settled_def split: reply.splits if_splits)
qed

text \<open>
  Claim C2. A successful upload of a stream whose length or digest the caller did not give
  issues three requests: the initiating request, a \<^verbatim>\<open>PATCH\<close> whose payload is every chunk
  of the stream in order, and a finalizing \<^verbatim>\<open>PUT\<close> with no payload whose \<^verbatim>\<open>digest\<close>
  query parameter is the hash accumulated locally over exactly that payload. The promise
  resolves with the number of bytes of that payload and that same digest; nothing a
  response carries enters either.
\<close>

theorem upload_chunked_digest_is_local:
  assumes "\<not> (truthy_number len \<and> truthy_string dig)"
    and "promise (upload P c T (Stream chunks) len dig) = Resolved r"
  shows "\<exists>post patchReq fin sid.
       requests (upload P c T (Stream chunks) len dig) = [post, patchReq, fin]
     \<and> req_method patchReq = PATCH
     \<and> payload patchReq = concat chunks
     \<and> req_method fin = PUT
     \<and> url fin = uploads_url c @ sid @ ''?digest='' @ ''sha256:''
                  @ sha256_hex P (payload patchReq)
     \<and> payload fin = []
     \<and> r = \<lparr>contentLength = length (payload patchReq),
            digest = ''sha256:'' @ sha256_hex P (payload patchReq)\<rparr>"
proof -
  from upload_resolved_initiated [OF assms(2)]
  obtain ires where ires: "T [] (initiate_request P c) = Response ires"
    and uuid: "truthy_string (headers ires ''docker-upload-uuid'')"
    by blast
  let ?uuid = "js_string (headers ires ''docker-upload-uuid'')"
  have eq: "upload P c T (Stream chunks) len dig
      = upload_chunked P c T (initiate_request P c) ?uuid (Stream chunks)"
    using assms(1) ires uuid by (simp add: upload_takes_chunked_path)
  from assms(2) have "promise (upload_chunked P c T (initiate_request P c) ?uuid (Stream chunks))
      = Resolved r"
    by (simp add: eq)
  from upload_chunked_resolved [OF this]
  obtain sid where rs: "requests (upload P c T (Stream chunks) len dig)
       = [initiate_request P c, patch_request P c ?uuid (Stream chunks),
          finalize_request P c sid (''sha256:'' @ sha256_hex P (blob_bytes (Stream chunks)))]"
    and r: "r = \<lparr>contentLength = length (blob_bytes (Stream chunks)),
            digest = ''sha256:'' @ sha256_hex P (blob_bytes (Stream chunks))\<rparr>"
    by (auto simp: eq)
  show ?thesis
    using rs r
    by (intro exI [of _ "initiate_request P c"]
              exI [of _ "patch_request P c ?uuid (Stream chunks)"]
              exI [of _ "finalize_request P c sid
                          (''sha256:'' @ sha256_hex P (blob_bytes (Stream chunks)))"]
              exI [of _ sid])
       (simp add: patch_request_def finalize_request_def blob_bytes_def)
qed

text \<open>The registry reports another digest on the finalizing response; it is not used.\<close>

theorem upload_chunked_digest_is_local_witness:
  "\<not> (truthy_number None \<and> truthy_string None)
   \<and> upload example_platform example_client
       (scripted
          [Response \<lparr>statusCode = 202, headers = [''docker-upload-uuid'' \<mapsto> ''u1''], body = []\<rparr>,
           Response \<lparr>statusCode = 204, headers = Map.empty, body = []\<rparr>,
           Response \<lparr>statusCode = 201,
                      headers = [''docker-content-digest'' \<mapsto> ''sha256:ffff''], body = []\<rparr>])
       (Stream [''ab'', ''c'']) None None
     = \<lparr>requests =
          [initiate_request example_platform example_client,
           patch_request example_platform example_client ''u1'' (Stream [''ab'', ''c'']),
           finalize_request example_platform example_client ''u1'' ''sha256:0000abc''],
        promise = Resolved \<lparr>contentLength = 3, digest = ''sha256:0000abc''\<rparr>,
        uncaught = None\<rparr>"
  using upload_chunked_digest_is_local
    [where len = None and dig = None and P = example_platform and c = example_client
       and T = "scripted
          [Response \<lparr>statusCode = 202, headers = [''docker-upload-uuid'' \<mapsto> ''u1''], body = []\<rparr>,
           Response \<lparr>statusCode = 204, headers = Map.empty, body = []\<rparr>,
           Response \<lparr>statusCode = 201,
                      headers = [''docker-content-digest'' \<mapsto> ''sha256:ffff''], body = []\<rparr>]"
       and chunks = "[''ab'', ''c'']"
       and r = "\<lparr>contentLength = 3, digest = ''sha256:0000abc''\<rparr>"]
  by (simp add: upload_def upload_chunked_def initiate_request_def patch_request_def
      finalize_request_def on_data_def scripted_def settled_def truthy_string_def
      truthy_number_def js_string_def blob_bytes_def example_platform_def Let_def)

text \<open>
  Claim C9. In a chunked upload whose \<^verbatim>\<open>PATCH\<close> is answered with status 204, the
  finalizing request is addressed to the session id of the \<^verbatim>\<open>PATCH\<close> response's
  \<^verbatim>\<open>docker-upload-uuid\<close> header when that response carries one (a non-empty value), and
  to the session id of the initiating response when it carries none.
\<close>

theorem upload_finalize_uses_rotated_uuid:
  assumes "case src of Stream chunks \<Rightarrow> \<not> (truthy_number len \<and> truthy_string dig)
           | Buffer b \<Rightarrow> b = [] \<and> \<not> truthy_number len"
    and "T [] (initiate_request P c) = Response ires"
    and "headers ires ''docker-upload-uuid'' = Some uuid" and "uuid \<noteq> []"
    and "T [initiate_request P c] (patch_request P c uuid src) = Response pres"
    and "statusCode pres = 204"
  shows "requests (upload P c T src len dig)
       = [initiate_request P c, patch_request P c uuid src,
          finalize_request P c
            (case headers pres ''docker-upload-uuid'' of
               None \<Rightarrow> uuid | Some v \<Rightarrow> if v = [] then uuid else v)
            (''sha256:'' @ sha256_hex P (blob_bytes src))]
     \<and> (\<forall>v. headers pres ''docker-upload-uuid'' = Some v \<and> v \<noteq> [] \<longrightarrow>
          url (last (requests (upload P c T src len dig)))
            = uploads_url c @ v @ ''?digest='' @ ''sha256:'' @ sha256_hex P (blob_bytes src))
     \<and> (headers pres ''docker-upload-uuid'' = None \<longrightarrow>
          url (last (requests (upload P c T src len dig)))
            = uploads_url c @ uuid @ ''?digest='' @ ''sha256:''
              @ sha256_hex P (blob_bytes src))"
proof -
  have truthy: "truthy_string (headers ires ''docker-upload-uuid'')"
    and uuid: "js_string (headers ires ''docker-upload-uuid'') = uuid"
    using assms(3,4) by (simp_all add: truthy_string_def js_string_def)
  have eq: "upload P c T src len dig = upload_chunked P c T (initiate_request P c) uuid src"
    using assms(1,2) truthy uuid by (simp add: upload_takes_chunked_path)
  note st = data_handler_state [of src]
  have rs: "requests (upload_chunked P c T (initiate_request P c) uuid src)
       = [initiate_request P c, patch_request P c uuid src,
          finalize_request P c
            (case headers pres ''docker-upload-uuid'' of
               None \<Rightarrow> uuid | Some v \<Rightarrow> if v = [] then uuid else v)
            (''sha256:'' @ sha256_hex P (blob_bytes src))]"
    using assms(5,6) unfolding upload_chunked_def st Let_def
    by (auto simp: settled_def truthy_string_def js_string_def
          split: reply.splits option.splits)
  show ?thesis
    unfolding eq rs by (simp add: finalize_request_def)
qed

theorem upload_finalize_uses_rotated_uuid_witness:
  "\<not> (truthy_number None \<and> truthy_string None)
   \<and> ''u1'' \<noteq> []
   \<and> map url (requests (upload example_platform example_client
       (scripted
          [Response \<lparr>statusCode = 202, headers = [''docker-upload-uuid'' \<mapsto> ''u1''], body = []\<rparr>,
           Response \<lparr>statusCode = 204, headers = [''docker-upload-uuid'' \<mapsto> ''u2''], body = []\<rparr>,
           Response \<lparr>statusCode = 201, headers = Map.empty, body = []\<rparr>])
       (Stream [''ab'', ''c'']) None None))
     = [''https://gcr.io/v2/proj/img/blobs/uploads/'',
        ''https://gcr.io/v2/proj/img/blobs/uploads/u1'',
        ''https://gcr.io/v2/proj/img/blobs/uploads/u2?digest=sha256:0000abc'']"
  using upload_finalize_uses_rotated_uuid
    [where src = "Stream [''ab'', ''c'']" and len = None and dig = None
       and T = "scripted
          [Response \<lparr>statusCode = 202, headers = [''docker-upload-uuid'' \<mapsto> ''u1''], body = []\<rparr>,
           Response \<lparr>statusCode = 204, headers = [''docker-upload-uuid'' \<mapsto> ''u2''], body = []\<rparr>,
           Response \<lparr>statusCode = 201, headers = Map.empty, body = []\<rparr>]"
       and P = example_platform and c = example_client
       and ires = "\<lparr>statusCode = 202, headers = [''docker-upload-uuid'' \<mapsto> ''u1''], body = []\<rparr>"
       and uuid = "''u1''"
       and pres = "\<lparr>statusCode = 204, headers = [''docker-upload-uuid'' \<mapsto> ''u2''], body = []\<rparr>"]
  by (simp add: initiate_request_def patch_request_def finalize_request_def uploads_url_def
      scripted_def truthy_string_def truthy_number_def blob_bytes_def example_platform_def
      example_client_def)

text \<open>
  Claim C3 does not hold of the code: uploading a zero-length buffer to a registry that
  accepts every step issues three requests, \<^verbatim>\<open>POST\<close>, \<^verbatim>\<open>PATCH\<close> and \<^verbatim>\<open>PUT\<close>,
  not the two of the monolithic path. The length filled in for the buffer is \<open>0\<close>, which
  is falsy in \<^verbatim>\<open>if (contentLength && digest)\<close>. The digest of the result is that of the
  empty input.
\<close>

theorem upload_empty_buffer_three_requests:
  "promise (upload example_platform example_client
       (scripted
          [Response \<lparr>statusCode = 202, headers = [''docker-upload-uuid'' \<mapsto> ''u1''], body = []\<rparr>,
           Response \<lparr>statusCode = 204, headers = Map.empty, body = []\<rparr>,
           Response \<lparr>statusCode = 201, headers = Map.empty, body = []\<rparr>])
       (Buffer []) None None)
     = Resolved \<lparr>contentLength = 0, digest =
         ''sha256:e3b0c44298fc1c149afbf4c8996fb92427ae41e4649b934ca495991b7852b855''\<rparr>
   \<and> map req_method (requests (upload example_platform example_client
       (scripted
          [Response \<lparr>statusCode = 202, headers = [''docker-upload-uuid'' \<mapsto> ''u1''], body = []\<rparr>,
           Response \<lparr>statusCode = 204, headers = Map.empty, body = []\<rparr>,
           Response \<lparr>statusCode = 201, headers = Map.empty, body = []\<rparr>])
       (Buffer []) None None))
     = [POST, PATCH, PUT]
   \<and> length (requests (upload example_platform example_client
       (scripted
          [Response \<lparr>statusCode = 202, headers = [''docker-upload-uuid'' \<mapsto> ''u1''], body = []\<rparr>,
           Response \<lparr>statusCode = 204, headers = Map.empty, body = []\<rparr>,
           Response \<lparr>statusCode = 201, headers = Map.empty, body = []\<rparr>])
       (Buffer []) None None))
     \<noteq> 2"
  by (simp add: upload_def upload_chunked_def initiate_request_def patch_request_def
      finalize_request_def on_data_def scripted_def settled_def truthy_string_def
      truthy_number_def js_string_def blob_bytes_def example_platform_def Let_def)

text \<open>
  Every other buffer takes the monolithic path, as the lines that fill in its length and
  digest intend: once the upload is initiated, a non-empty buffer is sent with one \<^verbatim>\<open>PUT\<close>.
\<close>

lemma upload_nonempty_buffer_two_requests:
  assumes "b \<noteq> []"
    and "T [] (initiate_request P c) = Response ires"
    and "truthy_string (headers ires ''docker-upload-uuid'')"
  shows "map req_method (requests (upload P c T (Buffer b) len dig)) = [POST, PUT]"
  using assms
  by (auto simp: upload_def upload_monolithic_def initiate_request_def put_request_def
      settled_def truthy_number_def truthy_string_def Let_def
      split: reply.splits option.splits)

text \<open>
  Claim C1 does not hold of the monolithic path: the result's digest is the
  \<^verbatim>\<open>docker-content-digest\<close> header of the registry's response, not the digest computed
  or supplied locally. A one-byte buffer is uploaded with two requests; when the 201
  response has no such header the promise resolves with the digest \<^verbatim>\<open>undefined\<close>,
  which is no digest of the buffer under any hash function, and when the header differs
  from the digest the caller supplied, the header's value is returned.
\<close>

theorem upload_monolithic_returns_server_digest:
  "upload P c
       (scripted
          [Response \<lparr>statusCode = 202, headers = [''docker-upload-uuid'' \<mapsto> ''u1''], body = []\<rparr>,
           Response \<lparr>statusCode = 201, headers = Map.empty, body = []\<rparr>])
       (Buffer ''a'') None None
     = \<lparr>requests =
          [initiate_request P c,
           put_request P c ''u1'' 1 (''sha256:'' @ sha256_hex P ''a'') (Buffer ''a'')],
        promise = Resolved \<lparr>contentLength = 1, digest = ''undefined''\<rparr>,
        uncaught = None\<rparr>
   \<and> ''undefined'' \<noteq> ''sha256:'' @ sha256_hex P ''a''
   \<and> promise (upload P c
       (scripted
          [Response \<lparr>statusCode = 202, headers = [''docker-upload-uuid'' \<mapsto> ''u1''], body = []\<rparr>,
           Response \<lparr>statusCode = 201,
                      headers = [''docker-content-digest'' \<mapsto> ''sha256:ffff''], body = []\<rparr>])
       (Buffer ''a'') None (Some ''sha256:0a0a''))
     = Resolved \<lparr>contentLength = 1, digest = ''sha256:ffff''\<rparr>"
  by (simp add: upload_def upload_monolithic_def scripted_def settled_def truthy_string_def
      truthy_number_def js_string_def Let_def)

text \<open>
  Claim C5 does not hold of the \<^verbatim>\<open>PATCH\<close> step: when the transport reports an error
  for it, the callback throws while reading the headers of the absent response, before
  it looks at the error, and the promise is never settled.
\<close>

theorem upload_patch_error_never_settles:
  "upload P c
       (scripted
          [Response \<lparr>statusCode = 202, headers = [''docker-upload-uuid'' \<mapsto> ''u1''], body = []\<rparr>,
           Failed ''ECONNRESET''])
       (Stream [''ab'']) None None
     = \<lparr>requests = [initiate_request P c, patch_request P c ''u1'' (Stream [''ab''])],
        promise = Pending,
        uncaught = Some TypeError\<rparr>"
  by (simp add: upload_def upload_chunked_def scripted_def truthy_string_def
      truthy_number_def js_string_def Let_def)

text \<open>
  The three other steps do reject with the transport's error: the initiating \<^verbatim>\<open>POST\<close>,
  the monolithic \<^verbatim>\<open>PUT\<close> and the finalizing \<^verbatim>\<open>PUT\<close> check \<^verbatim>\<open>err\<close> first.
\<close>

lemma upload_other_steps_reject:
  "T [] (initiate_request P c) = Failed e \<Longrightarrow>
     promise (upload P c T src len dig) = Rejected (TransportError e)"
  "T [post] (put_request P c uuid n d src) = Failed e \<Longrightarrow>
     promise (upload_monolithic P c T post uuid n d src) = Rejected (TransportError e)"
  "T [post] (patch_request P c uuid src) = Response pres \<Longrightarrow> statusCode pres = 204 \<Longrightarrow>
   T [post, patch_request P c uuid src]
     (finalize_request P c
        (if truthy_string (headers pres ''docker-upload-uuid'')
         then js_string (headers pres ''docker-upload-uuid'') else uuid)
        (''sha256:'' @ sha256_hex P (blob_bytes src))) = Failed e \<Longrightarrow>
     promise (upload_chunked P c T post uuid src) = Rejected (TransportError e)"
  unfolding upload_chunked_def data_handler_state
  by (simp_all add: upload_def upload_monolithic_def settled_def Let_def)

end
